theory Spec2Isabelle
  imports Complex_Main "HOL-Library.Sublist" "HOL-Library.Multiset"
begin

section \<open>Text primitives\<close>

text \<open>
  Utterances, catalog cells and replies are Python \<^verbatim>\<open>str\<close> values. They are modelled as
  \<^typ>\<open>string\<close>; the model covers ASCII text. The non-ASCII characters of the reply
  templates are written as their UTF-8 bytes. A byte above 127 is no letter, no digit and
  no white space here, and \<open>lower\<close> leaves it alone. Integers are Python's unbounded
  integers. The interpreter's limit on the length of a digit string given to \<^verbatim>\<open>int\<close>
  (4300 digits unless configured otherwise) is not modelled: an amount in an utterance is
  taken to stay below it.
\<close>

definition is_space :: "char \<Rightarrow> bool" where
  \<comment> \<open>\<^verbatim>\<open>str.isspace\<close> and the regex class \<^verbatim>\<open>\s\<close> on ASCII: 9-13, 28-31 and 32.\<close>
  "is_space c = (c \<in> set [CHR 0x09, CHR 0x0A, CHR 0x0B, CHR 0x0C, CHR 0x0D,
                            CHR 0x1C, CHR 0x1D, CHR 0x1E, CHR 0x1F, CHR 0x20])"

definition is_digit :: "char \<Rightarrow> bool" where
  \<comment> \<open>the regex class \<^verbatim>\<open>\d\<close> on ASCII\<close>
  "is_digit c = (c \<in> set ''0123456789'')"

definition is_upper :: "char \<Rightarrow> bool" where
  "is_upper c = (c \<in> set ''ABCDEFGHIJKLMNOPQRSTUVWXYZ'')"

definition is_lower :: "char \<Rightarrow> bool" where
  "is_lower c = (c \<in> set ''abcdefghijklmnopqrstuvwxyz'')"

definition is_word :: "char \<Rightarrow> bool" where
  \<comment> \<open>the regex class \<^verbatim>\<open>\w\<close> on ASCII\<close>
  "is_word c = (is_lower c \<or> is_upper c \<or> is_digit c \<or> c = CHR ''_'')"

definition lower_char :: "char \<Rightarrow> char" where
  "lower_char c =
     (case map_of (zip ''ABCDEFGHIJKLMNOPQRSTUVWXYZ'' ''abcdefghijklmnopqrstuvwxyz'') c of
        Some l \<Rightarrow> l
      | None \<Rightarrow> c)"

definition lower :: "string \<Rightarrow> string" where
  \<comment> \<open>\<^verbatim>\<open>str.lower\<close>\<close>
  "lower s = map lower_char s"

definition strip :: "string \<Rightarrow> string" where
  \<comment> \<open>\<^verbatim>\<open>str.strip\<close>\<close>
  "strip s = rev (dropWhile is_space (rev (dropWhile is_space s)))"

fun contains_str :: "string \<Rightarrow> string \<Rightarrow> bool" where
  \<comment> \<open>\<^verbatim>\<open>sub in s\<close>\<close>
  "contains_str sub [] = (sub = [])"
| "contains_str sub (c # cs) = (prefix sub (c # cs) \<or> contains_str sub cs)"

definition digit_val :: "char \<Rightarrow> int" where
  "digit_val c = int (of_char c) - 48"

definition py_int :: "string \<Rightarrow> int" where
  \<comment> \<open>\<^verbatim>\<open>int(s)\<close> on a non-empty string of ASCII digits\<close>
  "py_int s = foldl (\<lambda>a c. 10 * a + digit_val c) 0 s"

fun digit_char :: "nat \<Rightarrow> char" where
  "digit_char n = ''0123456789'' ! (n mod 10)"

fun str_nat :: "nat \<Rightarrow> string" where
  "str_nat n = (if n < 10 then [digit_char n] else str_nat (n div 10) @ [digit_char n])"

definition str_int :: "int \<Rightarrow> string" where
  \<comment> \<open>\<^verbatim>\<open>str(n)\<close> of an integer\<close>
  "str_int i = (if i < 0 then CHR ''-'' # str_nat (nat (- i)) else str_nat (nat i))"

section \<open>The regular expressions of the chat engine\<close>

text \<open>
  \<^verbatim>\<open>re.search\<close> tries every start position from the left and, at each, the
  alternatives of the keyword group in their written order, backtracking into the next
  alternative when the rest of the pattern fails. The rest of the budget patterns
  (white space, an optional dollar sign, white space, digits) is a sequence of greedy
  pieces over pairwise disjoint character classes, so giving characters back never helps
  and the greedy reading below is the only way it can match.
\<close>

definition skip_dollar :: "string \<Rightarrow> string" where
  \<comment> \<open>\<^verbatim>\<open>\$?\<close>\<close>
  "skip_dollar s = (case s of c # r \<Rightarrow> (if c = CHR ''$'' then r else s) | [] \<Rightarrow> s)"

definition digits_group :: "string \<Rightarrow> string option" where
  \<comment> \<open>\<^verbatim>\<open>(\d+)\<close>: the longest run of digits, at least one\<close>
  "digits_group s = (let d = takeWhile is_digit s in if d = [] then None else Some d)"

definition budget_tail :: "string \<Rightarrow> string option" where
  \<comment> \<open>\<^verbatim>\<open>\s*\$?\s*(\d+)\<close>, as in \<^verbatim>\<open>extract_filters\<close>\<close>
  "budget_tail s = digits_group (dropWhile is_space (skip_dollar (dropWhile is_space s)))"

definition gate_tail :: "string \<Rightarrow> string option" where
  \<comment> \<open>\<^verbatim>\<open>\s*\$?(\d+)\<close>, as in \<^verbatim>\<open>generate_reply\<close>\<close>
  "gate_tail s = digits_group (skip_dollar (dropWhile is_space s))"

fun match_alts :: "(string \<Rightarrow> 'a option) \<Rightarrow> string list \<Rightarrow> string \<Rightarrow> 'a option" where
  "match_alts rest [] s = None"
| "match_alts rest (k # ks) s =
     (if prefix k s
      then (case rest (drop (length k) s) of Some g \<Rightarrow> Some g | None \<Rightarrow> match_alts rest ks s)
      else match_alts rest ks s)"

fun re_search :: "(string \<Rightarrow> 'a option) \<Rightarrow> string \<Rightarrow> 'a option" where
  "re_search m [] = m []"
| "re_search m (c # cs) = (case m (c # cs) of Some g \<Rightarrow> Some g | None \<Rightarrow> re_search m cs)"

definition less_words :: "string list" where
  "less_words = [''under'', ''less'', ''below'']"

definition more_words :: "string list" where
  \<comment> \<open>\<^verbatim>\<open>greater(?: than)?\<close> tries the longer reading first\<close>
  "more_words = [''more than'', ''above'', ''over'', ''greater than'', ''greater'']"

definition gate_words :: "string list" where
  "gate_words = [''under'', ''less'', ''below'', ''more than'', ''above'', ''over'', ''greater'']"

definition m_less :: "string \<Rightarrow> string option" where
  "m_less text = re_search (match_alts budget_tail less_words) text"

definition m_more :: "string \<Rightarrow> string option" where
  "m_more text = re_search (match_alts budget_tail more_words) text"

definition budget_gate :: "string \<Rightarrow> bool" where
  "budget_gate text = (re_search (match_alts gate_tail gate_words) text \<noteq> None)"

text \<open>
  The stop-phrase test is \<^verbatim>\<open>re.fullmatch(".*\bW\b.*", text)\<close>. A position is a word
  boundary when exactly one of its two neighbours is a word character, the ends of the
  text counting as non-word. The dot matches every character but the line feed, so both
  \<^verbatim>\<open>.*\<close> parts must be free of line feeds.
\<close>

definition word_char :: "char option \<Rightarrow> bool" where
  "word_char c = (case c of None \<Rightarrow> False | Some x \<Rightarrow> is_word x)"

definition boundary :: "char option \<Rightarrow> char option \<Rightarrow> bool" where
  \<comment> \<open>\<^verbatim>\<open>\b\<close> between the character \<open>prev\<close> on the left and \<open>nxt\<close> on the right\<close>
  "boundary prev nxt = (word_char prev \<noteq> word_char nxt)"

definition first_char :: "string \<Rightarrow> char option" where
  "first_char s = (case s of [] \<Rightarrow> None | c # _ \<Rightarrow> Some c)"

definition last_char :: "char option \<Rightarrow> string \<Rightarrow> char option" where
  \<comment> \<open>the character left of the position reached once \<open>w\<close> is read\<close>
  "last_char prev w = (if w = [] then prev else Some (last w))"

definition word_here :: "string \<Rightarrow> char option \<Rightarrow> string \<Rightarrow> bool" where
  \<comment> \<open>\<^verbatim>\<open>\bW\b.*\<close> matches all of \<open>s\<close>, where \<open>prev\<close> is the character left of \<open>s\<close>\<close>
  "word_here w prev s =
     (prefix w s \<and> boundary prev (first_char s) \<and>
      boundary (last_char prev w) (first_char (drop (length w) s)) \<and>
      CHR 0x0A \<notin> set (drop (length w) s))"

fun fullmatch_word :: "string \<Rightarrow> char option \<Rightarrow> string \<Rightarrow> bool" where
  "fullmatch_word w prev [] = word_here w prev []"
| "fullmatch_word w prev (c # cs) =
     (word_here w prev (c # cs) \<or> (c \<noteq> CHR 0x0A \<and> fullmatch_word w (Some c) cs))"

definition stop_words :: "string list" where
  "stop_words = [''no'', ''stop'', ''thanks'', ''thank you'', ''bye'', ''ok'', ''okay'', ''cancel'']"

definition is_stop :: "string \<Rightarrow> bool" where
  "is_stop text = list_ex (\<lambda>w. fullmatch_word w None text) stop_words"

text \<open>
  \<^verbatim>\<open>re.split(r"\s+vs\s+|\s+and\s+", s)\<close> of the comparison screen. A separator starts at
  a white-space character; the greedy \<^verbatim>\<open>\s+\<close> takes the whole run (a shorter one would
  be followed by white space, not by the keyword), then the keyword, then a second
  non-empty run.
\<close>

definition sep_word :: "string \<Rightarrow> string \<Rightarrow> string option" where
  \<comment> \<open>keyword \<open>k\<close> and \<^verbatim>\<open>\s+\<close> at the start of \<open>s\<close>: what follows them\<close>
  "sep_word k s =
     (if prefix k s \<and> takeWhile is_space (drop (length k) s) \<noteq> []
      then Some (dropWhile is_space (drop (length k) s)) else None)"

definition match_sep :: "string \<Rightarrow> string option" where
  "match_sep s =
     (if takeWhile is_space s = [] then None
      else (case sep_word ''vs'' (dropWhile is_space s) of
              Some r \<Rightarrow> Some r
            | None \<Rightarrow> sep_word ''and'' (dropWhile is_space s)))"

lemma match_sep_shorter: "match_sep s = Some r \<Longrightarrow> length r < length s"
proof -
  assume m: "match_sep s = Some r"
  have k: "sep_word k t = Some r \<Longrightarrow> length r \<le> length t" for k t
    using length_dropWhile_le [of is_space "drop (length k) t"]
    by (auto simp: sep_word_def split: if_splits)
  from m have ne: "takeWhile is_space s \<noteq> []"
    by (auto simp: match_sep_def split: if_splits)
  have "length s = length (takeWhile is_space s) + length (dropWhile is_space s)"
    by (metis length_append takeWhile_dropWhile_id)
  with ne have lt: "length (dropWhile is_space s) < length s"
    by (cases "takeWhile is_space s") auto
  from m ne have "sep_word ''vs'' (dropWhile is_space s) = Some r
      \<or> sep_word ''and'' (dropWhile is_space s) = Some r"
    by (auto simp: match_sep_def split: option.splits)
  with k lt show ?thesis
    by (metis le_less_trans)
qed

function re_split :: "string \<Rightarrow> string \<Rightarrow> string list" where
  \<comment> \<open>\<open>seg\<close> is the current segment, reversed\<close>
  "re_split seg [] = [rev seg]"
| "re_split seg (c # cs) =
     (case match_sep (c # cs) of
        Some r \<Rightarrow> rev seg # re_split [] r
      | None \<Rightarrow> re_split (c # seg) cs)"
  by pat_completeness auto
termination
  by (relation "measure (\<lambda>(seg, s). length s)") (auto dest: match_sep_shorter)

section \<open>The catalog\<close>

text \<open>
  The data frame \<^verbatim>\<open>df\<close> is a list of rows in catalog order. A cell of a text column is
  \<open>None\<close> when it is missing (NaN). The price column is numeric through
  \<^verbatim>\<open>pd.to_numeric(errors="coerce")\<close>: a finite float is modelled by the rational number
  it denotes, NaN by \<open>None\<close>. The four flags say which of the roles
  \<^verbatim>\<open>item_col\<close>, \<^verbatim>\<open>color_col\<close>, \<^verbatim>\<open>price_col\<close>, \<^verbatim>\<open>category_col\<close> found a column.
\<close>

record row =
  row_item :: "string option"
  row_category :: "string option"
  row_color :: "string option"
  row_price :: "rat option"

record catalog =
  rows :: "row list"
  item_col :: bool
  color_col :: bool
  price_col :: bool
  category_col :: bool

definition mk_row :: "string \<Rightarrow> string \<Rightarrow> string \<Rightarrow> rat \<Rightarrow> row" where
  "mk_row i cat c p =
     \<lparr>row_item = Some i, row_category = Some cat, row_color = Some c, row_price = Some p\<rparr>"

definition fallback_df :: catalog where
  \<comment> \<open>the built-in data set used when the CSV file is absent\<close>
  "fallback_df =
     \<lparr>rows =
        [mk_row ''Blue Jeans'' ''Bottoms'' ''Blue'' (4999 / 100),
         mk_row ''Black Sneakers'' ''Shoes'' ''Black'' (6999 / 100),
         mk_row ''White T-Shirt'' ''Tops'' ''White'' (1999 / 100),
         mk_row ''Red Dress'' ''Dresses'' ''Red'' (8999 / 100),
         mk_row ''Green Hoodie'' ''Outerwear'' ''Green'' (5999 / 100),
         mk_row ''Yellow Scarf'' ''Accessories'' ''Yellow'' (1499 / 100)],
      item_col = True, color_col = True, price_col = True, category_col = True\<rparr>"

fun dropna :: "'a option list \<Rightarrow> 'a list" where
  "dropna [] = []"
| "dropna (None # xs) = dropna xs"
| "dropna (Some x # xs) = x # dropna xs"

fun unique :: "'a list \<Rightarrow> 'a list" where
  \<comment> \<open>\<^verbatim>\<open>Series.unique\<close>: the first occurrence of every value, in order\<close>
  "unique [] = []"
| "unique (x # xs) = x # unique (filter (\<lambda>y. y \<noteq> x) xs)"

definition truthy :: "string option \<Rightarrow> bool" where
  \<comment> \<open>Python truth of an optional string: neither \<^verbatim>\<open>None\<close> nor empty\<close>
  "truthy s = (case s of None \<Rightarrow> False | Some x \<Rightarrow> x \<noteq> [])"

definition str_contains :: "string \<Rightarrow> string option \<Rightarrow> bool" where
  \<comment> \<open>\<^verbatim>\<open>.str.contains(re.escape(pat), case=False, na=False)\<close> on one cell\<close>
  "str_contains pat cell =
     (case cell of None \<Rightarrow> False | Some v \<Rightarrow> contains_str (lower pat) (lower v))"

section \<open>Library functions the source calls\<close>

text \<open>
  Two library calls are not part of the repository and enter the model as parameters.
  \<^item> \<open>gcm word possibilities\<close> is \<^verbatim>\<open>difflib.get_close_matches(word, possibilities, n=1)\<close>.
    Nothing is assumed about it.
  \<^item> \<open>sv results\<close> is \<^verbatim>\<open>results.sort_values(by=price_col, ascending=True)\<close>, called on rows
    whose price is present. pandas sorts with its default \<^verbatim>\<open>kind="quicksort"\<close>, which
    returns the rows in ascending order of the price and promises nothing on the order of
    rows with equal prices. \<open>sorts_by_price\<close> states exactly this much.
\<close>

definition price_of :: "row \<Rightarrow> rat" where
  "price_of r = (case row_price r of Some p \<Rightarrow> p | None \<Rightarrow> 0)"

definition priced :: "row \<Rightarrow> bool" where
  "priced r = (row_price r \<noteq> None)"

definition sorts_by_price :: "(row list \<Rightarrow> row list) \<Rightarrow> bool" where
  "sorts_by_price sv =
     (\<forall>rs. list_all priced rs \<longrightarrow> mset (sv rs) = mset rs \<and> sorted (map price_of (sv rs)))"

section \<open>Filter extraction\<close>

datatype price_type = Less | More

definition colors :: "string list" where
  "colors = [''black'', ''blue'', ''white'', ''red'', ''green'', ''yellow'', ''pink'',
             ''purple'', ''grey'', ''gray'', ''brown'', ''maroon'']"

definition extract_budget :: "string \<Rightarrow> int option \<times> price_type option" where
  \<comment> \<open>the budget part of \<^verbatim>\<open>extract_filters\<close>, on the lowered text\<close>
  "extract_budget text =
     (case m_less text of
        Some d \<Rightarrow> (Some (py_int d), Some Less)
      | None \<Rightarrow>
          (case m_more text of
             Some d \<Rightarrow> (Some (py_int d), Some More)
           | None \<Rightarrow> (None, None)))"

definition extract_color :: "string \<Rightarrow> string option" where
  "extract_color text =
     (case find (\<lambda>c. contains_str c text) colors of
        Some c \<Rightarrow> (if c = ''gray'' then Some ''grey'' else Some c)
      | None \<Rightarrow> None)"

definition extract_item ::
  "(string \<Rightarrow> string list \<Rightarrow> string list) \<Rightarrow> catalog \<Rightarrow> string \<Rightarrow> string option" where
  "extract_item gcm df text =
     (let items = (if item_col df then unique (dropna (map row_item (rows df))) else []);
          lower_items = map lower items;
          found_item = find (\<lambda>i. contains_str i text) lower_items
      in if \<not> truthy found_item \<and> lower_items \<noteq> []
         then (case gcm text lower_items of [] \<Rightarrow> None | h # _ \<Rightarrow> Some h)
         else found_item)"

definition extract_filters ::
  "(string \<Rightarrow> string list \<Rightarrow> string list) \<Rightarrow> catalog \<Rightarrow> string
     \<Rightarrow> string option \<times> string option \<times> int option \<times> price_type option" where
  "extract_filters gcm df text0 =
     (let text = lower text0;
          (budget, price_type) = extract_budget text;
          found_color = extract_color text;
          found_item = extract_item gcm df text
      in (found_item, found_color, budget, price_type))"

section \<open>Product lookup and search\<close>

definition find_product ::
  "(string \<Rightarrow> string list \<Rightarrow> string list) \<Rightarrow> catalog \<Rightarrow> string \<Rightarrow> row option" where
  "find_product gcm df search_text =
     (let txt = lower search_text;
          color_match =
            (if color_col df
             then find (\<lambda>c. contains_str (lower c) txt) (unique (dropna (map row_color (rows df))))
             else None);
          unique_items = (if item_col df then unique (dropna (map row_item (rows df))) else []);
          exact = find (\<lambda>i. contains_str (lower i) txt) unique_items;
          item_match =
            (if \<not> truthy exact \<and> unique_items \<noteq> []
             then (let hit = gcm txt (map lower unique_items)
                   in find (\<lambda>i. lower i = (case hit of [] \<Rightarrow> [] | h # _ \<Rightarrow> h)) unique_items)
             else exact)
      in case item_match of
           None \<Rightarrow> None
         | Some i \<Rightarrow>
             if i = [] then None
             else
               (let filtered =
                      (if item_col df then filter (\<lambda>r. str_contains i (row_item r)) (rows df)
                       else rows df);
                    filtered2 =
                      (case color_match of
                         None \<Rightarrow> filtered
                       | Some c \<Rightarrow>
                           if c \<noteq> [] \<and> color_col df
                           then filter (\<lambda>r. str_contains c (row_color r)) filtered
                           else filtered)
                in case filtered2 of [] \<Rightarrow> None | r # _ \<Rightarrow> Some r))"

definition by_text :: "string option \<Rightarrow> bool \<Rightarrow> (row \<Rightarrow> string option) \<Rightarrow> row list \<Rightarrow> row list" where
  \<comment> \<open>\<^verbatim>\<open>if pat and col: results = results[results[col].str.contains(...)]\<close>\<close>
  "by_text pat col cell results =
     (case pat of
        None \<Rightarrow> results
      | Some p \<Rightarrow>
          if p \<noteq> [] \<and> col then filter (\<lambda>r. str_contains p (cell r)) results else results)"

text \<open>
  The budget filter compares the price column with \<^verbatim>\<open>float(budget)\<close>. The conversion of a
  Python integer to a float rounds to the nearest number with 53 significant bits, ties
  to the even one, and raises \<^verbatim>\<open>OverflowError\<close> when the rounded value reaches \<open>2 ^ 1024\<close>.
  The exception leaves \<^verbatim>\<open>search_products\<close> and its caller; it is the \<open>Inl\<close> result here.
\<close>

datatype py_error = KeyError | OverflowError

function bitlen :: "int \<Rightarrow> nat" where
  \<comment> \<open>\<^verbatim>\<open>int.bit_length\<close> of a non-negative integer\<close>
  "bitlen n = (if n \<le> 0 then 0 else Suc (bitlen (n div 2)))"
  by pat_completeness auto
termination
  by (relation "measure nat") auto

definition round_53 :: "int \<Rightarrow> int" where
  \<comment> \<open>the nearest integer with at most 53 significant bits, ties to even, of a
      non-negative integer\<close>
  "round_53 n =
     (if n < 2 ^ 53 then n
      else
        (let e = bitlen n - 53; q = n div 2 ^ e; r = n mod 2 ^ e; h = 2 ^ (e - 1)
         in (if h < r \<or> (r = h \<and> odd q) then q + 1 else q) * 2 ^ e))"

definition py_float :: "int \<Rightarrow> py_error + rat" where
  \<comment> \<open>\<^verbatim>\<open>float(n)\<close> of an integer\<close>
  "py_float n =
     (let m = round_53 \<bar>n\<bar>
      in if 2 ^ 1024 \<le> m then Inl OverflowError else Inr (of_int (sgn n * m)))"

definition price_le :: "row \<Rightarrow> rat \<Rightarrow> bool" where
  \<comment> \<open>\<^verbatim>\<open>price <= x\<close>, \<open>x\<close> being \<^verbatim>\<open>float(budget)\<close>; a comparison with NaN is false\<close>
  "price_le r x = (case row_price r of None \<Rightarrow> False | Some p \<Rightarrow> p \<le> x)"

definition price_ge :: "row \<Rightarrow> rat \<Rightarrow> bool" where
  \<comment> \<open>\<^verbatim>\<open>price >= x\<close>, \<open>x\<close> being \<^verbatim>\<open>float(budget)\<close>\<close>
  "price_ge r x = (case row_price r of None \<Rightarrow> False | Some p \<Rightarrow> x \<le> p)"

definition by_budget ::
  "int option \<Rightarrow> price_type option \<Rightarrow> bool \<Rightarrow> row list \<Rightarrow> py_error + row list" where
  "by_budget budget price_type col results =
     (case budget of
        None \<Rightarrow> Inr results
      | Some b \<Rightarrow>
          if col then
            (case price_type of
               Some Less \<Rightarrow>
                 (case py_float b of
                    Inl e \<Rightarrow> Inl e
                  | Inr x \<Rightarrow> Inr (filter (\<lambda>r. price_le r x) results))
             | Some More \<Rightarrow>
                 (case py_float b of
                    Inl e \<Rightarrow> Inl e
                  | Inr x \<Rightarrow> Inr (filter (\<lambda>r. price_ge r x) results))
             | None \<Rightarrow> Inr results)
          else Inr results)"

definition filtered_rows ::
  "catalog \<Rightarrow> string option \<Rightarrow> string option \<Rightarrow> int option \<Rightarrow> price_type option
     \<Rightarrow> py_error + row list" where
  \<comment> \<open>\<^verbatim>\<open>results\<close> in \<^verbatim>\<open>search_products\<close> after the item, color and budget filters\<close>
  "filtered_rows df item color budget price_type =
     by_budget budget price_type (price_col df)
       (by_text color (color_col df) row_color
         (by_text item (item_col df) row_item (rows df)))"

definition search_products ::
  "(row list \<Rightarrow> row list) \<Rightarrow> catalog \<Rightarrow> string option \<Rightarrow> string option \<Rightarrow> int option
     \<Rightarrow> price_type option \<Rightarrow> py_error + row list option" where
  "search_products sv df item color budget price_type =
     (case filtered_rows df item color budget price_type of
        Inl e \<Rightarrow> Inl e
      | Inr results \<Rightarrow>
          (let results2 = (if price_col df then filter priced results else results)
           in if results2 = [] then Inr None
              else Inr (Some (take 3 (if price_col df then sv results2 else results2)))))"

section \<open>Rendering\<close>

definition nl :: string where
  "nl = [CHR 0x0A]"

definition apostrophe :: string where
  "apostrophe = [CHR 0xE2, CHR 0x80, CHR 0x99]"

definition em_dash :: string where
  "em_dash = [CHR 0xE2, CHR 0x80, CHR 0x94]"

definition sparkles :: string where
  "sparkles = [CHR 0xE2, CHR 0x9C, CHR 0xA8]"

definition shopping_bags :: string where
  "shopping_bags = [CHR 0xF0, CHR 0x9F, CHR 0x9B, CHR 0x8D, CHR 0xEF, CHR 0xB8, CHR 0x8F]"

definition gem :: string where
  "gem = [CHR 0xF0, CHR 0x9F, CHR 0x92, CHR 0x8E]"

definition dizzy :: string where
  "dizzy = [CHR 0xF0, CHR 0x9F, CHR 0x92, CHR 0xAB]"

definition wave :: string where
  "wave = [CHR 0xF0, CHR 0x9F, CHR 0x91, CHR 0x8B]"

definition sweat_smile :: string where
  "sweat_smile = [CHR 0xF0, CHR 0x9F, CHR 0x98, CHR 0x85]"

definition dart :: string where
  "dart = [CHR 0xF0, CHR 0x9F, CHR 0x8E, CHR 0xAF]"

definition two_hearts :: string where
  "two_hearts = [CHR 0xF0, CHR 0x9F, CHR 0x92, CHR 0x95]"

definition confused :: string where
  "confused = [CHR 0xF0, CHR 0x9F, CHR 0x98, CHR 0x95]"

definition or_str :: "string option \<Rightarrow> string \<Rightarrow> string" where
  \<comment> \<open>\<^verbatim>\<open>s or d\<close> inside an f-string\<close>
  "or_str s d = (case s of None \<Rightarrow> d | Some x \<Rightarrow> if x = [] then d else x)"

definition cell_str :: "string option \<Rightarrow> string" where
  \<comment> \<open>a text cell inside an f-string; a missing cell is the float NaN\<close>
  "cell_str c = (case c of None \<Rightarrow> ''nan'' | Some x \<Rightarrow> x)"

definition budget_str :: "int option \<Rightarrow> string" where
  "budget_str b = (case b of None \<Rightarrow> ''None'' | Some n \<Rightarrow> str_int n)"

definition nonzero :: "int option \<Rightarrow> bool" where
  \<comment> \<open>Python truth of an optional integer\<close>
  "nonzero b = (case b of None \<Rightarrow> False | Some n \<Rightarrow> n \<noteq> 0)"

definition round_half_even :: "rat \<Rightarrow> int" where
  "round_half_even x =
     (let f = \<lfloor>x\<rfloor>; d = x - of_int f
      in if d < 1 / 2 then f else if 1 / 2 < d then f + 1 else if even f then f else f + 1)"

definition format_2f :: "rat \<Rightarrow> string" where
  \<comment> \<open>\<^verbatim>\<open>f"{x:.2f}"\<close> of a finite number\<close>
  "format_2f x =
     (let n = nat (round_half_even (\<bar>x\<bar> * 100))
      in (if x < 0 then ''-'' else []) @ str_nat (n div 100) @ ''.''
           @ [digit_char (n div 10), digit_char n])"

definition row_text :: "catalog \<Rightarrow> row \<Rightarrow> string" where
  \<comment> \<open>the two lines \<^verbatim>\<open>respond_like_bot\<close> adds for one row\<close>
  "row_text df r =
     (let name = (if item_col df then cell_str (row_item r) else ''Item'');
          color_val = (if color_col df then cell_str (row_color r) else ''-'');
          price_val =
            (if price_col df
             then (case row_price r of Some p \<Rightarrow> ''$'' @ format_2f p | None \<Rightarrow> ''N/A'')
             else ''N/A'');
          category_val = (if category_col df then cell_str (row_category r) else ''-'')
      in sparkles @ '' **'' @ name @ ''** '' @ em_dash @ '' '' @ price_val @ nl
           @ ''   Category: '' @ category_val @ '' | Color: '' @ color_val @ nl @ nl)"

definition respond_like_bot ::
  "catalog \<Rightarrow> row list \<Rightarrow> string option \<Rightarrow> string option \<Rightarrow> int option \<Rightarrow> price_type option
     \<Rightarrow> string" where
  "respond_like_bot df results item color budget price_type =
     (let what = ''Here are some '' @ or_str color [] @ '' '' @ or_str item ''items'';
          intro =
            (if price_type = Some Less \<and> nonzero budget
             then what @ '' under $'' @ budget_str budget @ '' '' @ shopping_bags
             else if price_type = Some More \<and> nonzero budget
             then what @ '' over $'' @ budget_str budget @ '' '' @ gem
             else what @ '' I think you'' @ apostrophe @ ''ll love '' @ dizzy)
      in intro @ nl @ nl @ concat (map (row_text df) results)
           @ ''Would you like me to show *similar* or *cheaper* options next?'')"

section \<open>The dialogue\<close>

record slots =
  ctx_item :: "string option"
  ctx_color :: "string option"
  ctx_budget :: "int option"
  ctx_price_type :: "price_type option"
  ctx_step :: string

definition initial_context :: slots where
  "initial_context =
     \<lparr>ctx_item = None, ctx_color = None, ctx_budget = None, ctx_price_type = None,
      ctx_step = ''greet''\<rparr>"

definition farewell :: string where
  "farewell = ''Alright '' @ wave @ '' Have a wonderful shopping day!''"

definition no_range_reply :: "string option \<Rightarrow> string" where
  "no_range_reply item =
     ''I couldn'' @ apostrophe @ ''t find any '' @ or_str item ''items'' @ '' in that range ''
       @ sweat_smile"

definition greet_reply :: string where
  "greet_reply =
     ''Hey there '' @ wave @ ''! What are you shopping for today? (e.g., jeans, shoes, dresses)''"

definition ask_color_reply :: "string option \<Rightarrow> string" where
  "ask_color_reply item =
     ''Nice choice! '' @ dart @ '' Do you have a color preference for your ''
       @ or_str item ''item'' @ ''?''"

definition ask_budget_reply :: string where
  "ask_budget_reply =
     ''Great! '' @ two_hearts @ '' What'' @ apostrophe
       @ ''s your budget range? (e.g., under 100 or more than 150)''"

definition nothing_reply :: string where
  "nothing_reply =
     ''Hmm, I didn'' @ apostrophe @ ''t find anything in that range '' @ confused
       @ '' Maybe try another color or price range?''"

definition clarify_reply :: string where
  "clarify_reply =
     ''I didn'' @ apostrophe @ ''t quite get that '' @ em_dash @ '' could you please clarify?''"

definition found :: "row list option \<Rightarrow> bool" where
  \<comment> \<open>\<^verbatim>\<open>results is not None and not results.empty\<close>\<close>
  "found results = (case results of None \<Rightarrow> False | Some rs \<Rightarrow> rs \<noteq> [])"

definition shown :: "row list option \<Rightarrow> row list" where
  "shown results = (case results of None \<Rightarrow> [] | Some rs \<Rightarrow> rs)"

definition answer :: "py_error + row list option \<Rightarrow> (row list \<Rightarrow> string) \<Rightarrow> string \<Rightarrow> py_error + string" where
  \<comment> \<open>the reply after a search: the rendered rows, or the given sentence when nothing was
      found; an exception of the search is passed on\<close>
  "answer searched render nothing =
     (case searched of
        Inl e \<Rightarrow> Inl e
      | Inr results \<Rightarrow> Inr (if found results then render (shown results) else nothing))"

definition generate_reply ::
  "(string \<Rightarrow> string list \<Rightarrow> string list) \<Rightarrow> (row list \<Rightarrow> row list) \<Rightarrow> catalog \<Rightarrow> slots
     \<Rightarrow> string \<Rightarrow> slots \<times> (py_error + string)" where
  \<comment> \<open>the slots after the call, and the reply or the exception that ends it\<close>
  "generate_reply gcm sv df ctx user_input =
     (let text = strip (lower user_input) in
      if is_stop text then
        (ctx\<lparr>ctx_step := ''greet'', ctx_item := None, ctx_color := None,
                  ctx_budget := None, ctx_price_type := None\<rparr>, Inr farewell)
      else if budget_gate text then
        (let (_, _, budget, price_type) = extract_filters gcm df text;
             item = ctx_item ctx;
             color = ctx_color ctx
         in (ctx\<lparr>ctx_budget := budget, ctx_price_type := price_type\<rparr>,
             answer (search_products sv df item color budget price_type)
               (\<lambda>results. respond_like_bot df results item color budget price_type)
               (no_range_reply item)))
      else if ctx_step ctx = ''greet'' then
        (ctx\<lparr>ctx_step := ''ask_item''\<rparr>, Inr greet_reply)
      else if ctx_step ctx = ''ask_item'' then
        (let (item, color, _, _) = extract_filters gcm df text
         in (ctx\<lparr>ctx_item := item, ctx_color := color, ctx_step := ''ask_color''\<rparr>,
             Inr (ask_color_reply item)))
      else if ctx_step ctx = ''ask_color'' then
        (let (_, color, _, _) = extract_filters gcm df text
         in ((if truthy color then ctx\<lparr>ctx_color := color\<rparr> else ctx)
               \<lparr>ctx_step := ''ask_budget''\<rparr>,
             Inr ask_budget_reply))
      else if ctx_step ctx = ''ask_budget'' then
        (let (_, _, budget, price_type) = extract_filters gcm df text;
             ctx2 = ctx\<lparr>ctx_budget := budget, ctx_price_type := price_type\<rparr>
         in (ctx2,
             answer (search_products sv df (ctx_item ctx2) (ctx_color ctx2)
                       (ctx_budget ctx2) (ctx_price_type ctx2))
               (\<lambda>results. respond_like_bot df results (ctx_item ctx2) (ctx_color ctx2)
                            (ctx_budget ctx2) (ctx_price_type ctx2))
               nothing_reply))
      else
        (let (item, color, budget, price_type) = extract_filters gcm df text
         in if truthy item \<or> truthy color \<or> nonzero budget
            then
              (case search_products sv df item color budget price_type of
                 Inl e \<Rightarrow> (ctx, Inl e)
               | Inr results \<Rightarrow>
                   if found results
                   then (ctx\<lparr>ctx_item := item, ctx_color := color, ctx_budget := budget,
                              ctx_price_type := price_type,
                              ctx_step := (if \<not> truthy color then ''ask_color''
                                           else ''ask_budget'')\<rparr>,
                         Inr (respond_like_bot df (shown results) item color budget price_type))
                   else (ctx, Inr clarify_reply))
            else (ctx, Inr clarify_reply)))"

section \<open>The comparison screen\<close>

text \<open>
  The handler of the feature \<^verbatim>\<open>Compare Products\<close> for one submitted text. It ends in one of
  three ways: a comparison is appended to \<^verbatim>\<open>compare_history\<close> (and shown as a table on the
  rerun), \<^verbatim>\<open>st.warning\<close> asks to check the spelling, or \<^verbatim>\<open>st.info\<close> explains the format.
  The table is a Python dict literal: a key written twice keeps its first place and its
  last value. Reading \<^verbatim>\<open>p1[color_col]\<close> when no color column was found raises
  \<^verbatim>\<open>KeyError\<close>.
\<close>

record comparison =
  cmp_p1 :: string
  cmp_c1 :: string
  cmp_p2 :: string
  cmp_c2 :: string
  cmp_table :: "(string \<times> string list) list"

datatype screen = Table comparison | Warning | Info

fun dict_set :: "'k \<Rightarrow> 'v \<Rightarrow> ('k \<times> 'v) list \<Rightarrow> ('k \<times> 'v) list" where
  "dict_set k v [] = [(k, v)]"
| "dict_set k v ((k', v') # d) = (if k' = k then (k, v) # d else (k', v') # dict_set k v d)"

definition py_dict :: "('k \<times> 'v) list \<Rightarrow> ('k \<times> 'v) list" where
  "py_dict kvs = foldl (\<lambda>d (k, v). dict_set k v d) [] kvs"

definition price_cell :: "catalog \<Rightarrow> row \<Rightarrow> string" where
  \<comment> \<open>\<^verbatim>\<open>f"${p[price_col]:.2f}" if price_col else "-"\<close>\<close>
  "price_cell df r =
     (if price_col df
      then ''$'' @ (case row_price r of Some p \<Rightarrow> format_2f p | None \<Rightarrow> ''nan'')
      else ''-'')"

definition column_of :: "catalog \<Rightarrow> row \<Rightarrow> string \<times> string list" where
  "column_of df r =
     (cell_str (row_item r) @ '' ('' @ cell_str (row_color r) @ '')'',
      [price_cell df r,
       (if color_col df then cell_str (row_color r) else ''-''),
       (if category_col df then cell_str (row_category r) else ''-'')])"

definition compare_products ::
  "(string \<Rightarrow> string list \<Rightarrow> string list) \<Rightarrow> catalog \<Rightarrow> string \<Rightarrow> py_error + screen" where
  "compare_products gcm df user_compare =
     (case re_split [] (lower user_compare) of
        m0 # m1 # _ \<Rightarrow>
          (case (find_product gcm df (strip m0), find_product gcm df (strip m1)) of
             (Some p1, Some p2) \<Rightarrow>
               if \<not> color_col df then Inl KeyError
               else Inr (Table
                 \<lparr>cmp_p1 = cell_str (row_item p1),
                  cmp_c1 = (if color_col df then cell_str (row_color p1) else ''-''),
                  cmp_p2 = cell_str (row_item p2),
                  cmp_c2 = (if color_col df then cell_str (row_color p2) else ''-''),
                  cmp_table =
                    py_dict [(''Attribute'', [''Price'', ''Color'', ''Category'']),
                             column_of df p1, column_of df p2]\<rparr>)
           | _ \<Rightarrow> Inr Warning)
      | _ \<Rightarrow> Inr Info)"

section \<open>Catalogs used as examples\<close>

definition boundary_df :: catalog where
  "boundary_df =
     \<lparr>rows =
        [mk_row ''Blue Jeans'' ''Bottoms'' ''Blue'' 50,
         mk_row ''Black Jeans'' ''Bottoms'' ''Black'' 80,
         mk_row ''Grey Jeans'' ''Bottoms'' ''Grey'' 95],
      item_col = True, color_col = True, price_col = True, category_col = True\<rparr>"



definition huge_budget_text :: string where
  \<comment> \<open>an utterance with a budget of 310 digits, the number \<open>10 ^ 309\<close>\<close>
  "huge_budget_text = ''under 1'' @ replicate 309 (CHR ''0'')"

section \<open>Facts about the text primitives\<close>

lemma is_space_lower_char: "is_space (lower_char c) = is_space c"
  by (simp add: lower_char_def is_space_def)

lemma lower_char_idem: "lower_char (lower_char c) = lower_char c"
  by (simp add: lower_char_def)

lemma lower_idem: "lower (lower s) = lower s"
  by (simp add: lower_def lower_char_idem)

lemma lower_strip: "lower (strip s) = strip (lower s)"
proof -
  have sp: "is_space \<circ> lower_char = is_space"
    by (rule ext) (simp add: is_space_lower_char)
  show ?thesis
    by (simp add: lower_def strip_def rev_map dropWhile_map sp)
qed

lemma lower_strip_lower: "lower (strip (lower s)) = strip (lower s)"
  by (simp add: lower_strip lower_idem)

lemma fullmatch_word_intro:
  assumes "w \<noteq> []" "is_word (hd w)" "is_word (last w)"
    and "CHR 0x0A \<notin> set post"
    and "post = [] \<or> \<not> is_word (hd post)"
  shows "CHR 0x0A \<notin> set pre \<Longrightarrow> \<not> word_char (if pre = [] then prev else Some (last pre))
    \<Longrightarrow> fullmatch_word w prev (pre @ w @ post)"
proof (induction pre arbitrary: prev)
  case Nil
  from assms(1) obtain c cs where w: "w = c # cs" by (cases w) auto
  have "word_here w prev (w @ post)"
    using assms Nil w
    by (cases post) (auto simp: word_here_def boundary_def first_char_def last_char_def word_char_def)
  then show ?case by (simp add: w)
next
  case (Cons p ps)
  have "fullmatch_word w (Some p) (ps @ w @ post)"
    using Cons.prems by (intro Cons.IH) (auto split: if_splits)
  with Cons.prems show ?case by auto
qed

lemma is_stop_intro:
  assumes "w \<in> set stop_words" "text = pre @ w @ post"
    and "pre = [] \<or> \<not> is_word (last pre)" "post = [] \<or> \<not> is_word (hd post)"
    and "CHR 0x0A \<notin> set text"
  shows "is_stop text"
proof -
  have w: "w \<noteq> []" "is_word (hd w)" "is_word (last w)"
    using assms(1) by (auto simp: stop_words_def is_word_def is_lower_def)
  have "fullmatch_word w None (pre @ w @ post)"
    using assms w by (intro fullmatch_word_intro) (auto simp: word_char_def)
  with assms(1,2) show ?thesis
    by (auto simp: is_stop_def list_ex_iff)
qed

section \<open>Facts about the regular expressions\<close>

lemma re_search_None_iff:
  "re_search m t = None \<longleftrightarrow> (\<forall>s. suffix s t \<longrightarrow> m s = None)"
proof (induction t)
  case Nil
  then show ?case by simp
next
  case (Cons c cs)
  then show ?case
    by (auto simp: suffix_Cons split: option.splits)
qed

lemma match_alts_None_iff:
  "match_alts rest ks s = None \<longleftrightarrow>
     (\<forall>k \<in> set ks. prefix k s \<longrightarrow> rest (drop (length k) s) = None)"
  by (induction ks) (auto split: option.splits)


lemma digits_group_Some_hd:
  "digits_group s = Some d \<Longrightarrow> s \<noteq> [] \<and> is_digit (hd s)"
  by (cases s) (auto simp: digits_group_def Let_def split: if_splits)

lemma digit_not_space: "is_digit c \<Longrightarrow> \<not> is_space c"
  by (auto simp: is_digit_def is_space_def)

lemma gate_tail_budget_tail: "gate_tail s \<noteq> None \<Longrightarrow> budget_tail s \<noteq> None"
proof -
  assume "gate_tail s \<noteq> None"
  then obtain d where d: "digits_group (skip_dollar (dropWhile is_space s)) = Some d"
    by (auto simp: gate_tail_def)
  let ?u = "skip_dollar (dropWhile is_space s)"
  from digits_group_Some_hd [OF d] have "?u \<noteq> []" "is_digit (hd ?u)" by auto
  then have "dropWhile is_space ?u = ?u"
    by (cases ?u) (auto simp: digit_not_space)
  with d show ?thesis by (simp add: budget_tail_def)
qed

lemma gate_words_cover: "k \<in> set gate_words \<Longrightarrow> k \<in> set less_words \<or> k \<in> set more_words"
  by (auto simp: gate_words_def less_words_def more_words_def)

lemma re_search_D: "re_search m t \<noteq> None \<Longrightarrow> \<exists>s. suffix s t \<and> m s \<noteq> None"
  by (simp add: re_search_None_iff)

lemma re_search_I: "suffix s t \<Longrightarrow> m s \<noteq> None \<Longrightarrow> re_search m t \<noteq> None"
  by (auto simp: re_search_None_iff)

lemma match_alts_D:
  "match_alts rest ks s \<noteq> None \<Longrightarrow>
   \<exists>k \<in> set ks. prefix k s \<and> rest (drop (length k) s) \<noteq> None"
  by (simp add: match_alts_None_iff)

lemma match_alts_I:
  "k \<in> set ks \<Longrightarrow> prefix k s \<Longrightarrow> rest (drop (length k) s) \<noteq> None
   \<Longrightarrow> match_alts rest ks s \<noteq> None"
  by (auto simp: match_alts_None_iff)

lemma budget_gate_extract:
  assumes "budget_gate t"
  shows "\<exists>b p. extract_budget t = (Some b, Some p)"
proof -
  from assms have "re_search (match_alts gate_tail gate_words) t \<noteq> None"
    by (simp add: budget_gate_def)
  from re_search_D [OF this]
  obtain s where s: "suffix s t" "match_alts gate_tail gate_words s \<noteq> None"
    by blast
  from match_alts_D [OF s(2)]
  obtain k where k: "k \<in> set gate_words" "prefix k s" "gate_tail (drop (length k) s) \<noteq> None"
    by blast
  from k(3) have bt: "budget_tail (drop (length k) s) \<noteq> None"
    by (rule gate_tail_budget_tail)
  from gate_words_cover [OF k(1)] have "m_less t \<noteq> None \<or> m_more t \<noteq> None"
  proof
    assume "k \<in> set less_words"
    from match_alts_I [of k less_words s budget_tail, OF this k(2) bt] have "m_less t \<noteq> None"
      unfolding m_less_def by (rule re_search_I [OF s(1)])
    then show ?thesis ..
  next
    assume "k \<in> set more_words"
    from match_alts_I [of k more_words s budget_tail, OF this k(2) bt] have "m_more t \<noteq> None"
      unfolding m_more_def by (rule re_search_I [OF s(1)])
    then show ?thesis ..
  qed
  then show ?thesis
    by (auto simp: extract_budget_def split: option.splits)
qed

section \<open>The branches of the reply function\<close>

lemma extract_filters_parts:
  "extract_filters gcm df text =
     (extract_item gcm df (lower text), extract_color (lower text),
      fst (extract_budget (lower text)), snd (extract_budget (lower text)))"
  by (simp add: extract_filters_def Let_def split: prod.splits)

lemma generate_reply_stop:
  "is_stop (strip (lower u)) \<Longrightarrow>
   generate_reply gcm sv df ctx u =
     (ctx\<lparr>ctx_step := ''greet'', ctx_item := None, ctx_color := None,
          ctx_budget := None, ctx_price_type := None\<rparr>, Inr farewell)"
  by (simp add: generate_reply_def Let_def)

lemma generate_reply_budget:
  assumes "\<not> is_stop (strip (lower u))" "budget_gate (strip (lower u))"
  shows "generate_reply gcm sv df ctx u =
     (ctx\<lparr>ctx_budget := fst (extract_budget (strip (lower u))),
          ctx_price_type := snd (extract_budget (strip (lower u)))\<rparr>,
      answer
        (search_products sv df (ctx_item ctx) (ctx_color ctx)
           (fst (extract_budget (strip (lower u)))) (snd (extract_budget (strip (lower u)))))
        (\<lambda>results. respond_like_bot df results (ctx_item ctx) (ctx_color ctx)
           (fst (extract_budget (strip (lower u)))) (snd (extract_budget (strip (lower u)))))
        (no_range_reply (ctx_item ctx)))"
  using assms
  by (simp add: generate_reply_def Let_def extract_filters_parts lower_strip_lower case_prod_beta)

lemma generate_reply_greet:
  assumes "\<not> is_stop (strip (lower u))" "\<not> budget_gate (strip (lower u))"
    and "ctx_step ctx = ''greet''"
  shows "generate_reply gcm sv df ctx u = (ctx\<lparr>ctx_step := ''ask_item''\<rparr>, Inr greet_reply)"
  using assms
  by (simp add: generate_reply_def Let_def)

lemma generate_reply_ask_color:
  assumes "\<not> is_stop (strip (lower u))" "\<not> budget_gate (strip (lower u))"
    and "ctx_step ctx = ''ask_color''"
  shows "generate_reply gcm sv df ctx u =
     ((if truthy (extract_color (strip (lower u)))
       then ctx\<lparr>ctx_color := extract_color (strip (lower u))\<rparr> else ctx)
        \<lparr>ctx_step := ''ask_budget''\<rparr>,
      Inr ask_budget_reply)"
  using assms
  by (simp add: generate_reply_def Let_def extract_filters_parts lower_strip_lower case_prod_beta)

lemma generate_reply_ask_item:
  assumes "\<not> is_stop (strip (lower u))" "\<not> budget_gate (strip (lower u))"
    and "ctx_step ctx = ''ask_item''"
  shows "generate_reply gcm sv df ctx u =
     (ctx\<lparr>ctx_item := extract_item gcm df (strip (lower u)),
          ctx_color := extract_color (strip (lower u)), ctx_step := ''ask_color''\<rparr>,
      Inr (ask_color_reply (extract_item gcm df (strip (lower u)))))"
  using assms
  by (simp add: generate_reply_def Let_def extract_filters_parts lower_strip_lower case_prod_beta)


lemma red_dress_text: "strip (lower ''red dress'') = ''red dress''"
  by code_simp

lemma red_dress_no_stop: "\<not> is_stop ''red dress''"
  by code_simp

lemma red_dress_no_budget: "\<not> budget_gate ''red dress''"
  by code_simp

lemma red_dress_color: "extract_color ''red dress'' = Some ''red''"
  by code_simp

lemma red_dress_item: "extract_item gcm fallback_df ''red dress'' = Some ''red dress''"
  by code_simp

section \<open>Facts about the search\<close>

lemma by_text_subset: "set (by_text pat col cell rs) \<subseteq> set rs"
  by (auto simp: by_text_def split: option.splits)

lemma filtered_rows_no_budget:
  "filtered_rows df item color None pt =
     Inr (by_text color (color_col df) row_color (by_text item (item_col df) row_item (rows df)))"
  by (simp add: filtered_rows_def by_budget_def)

lemma filtered_rows_Less:
  assumes "price_col df" "py_float b = Inr x" "filtered_rows df item color None None = Inr base"
  shows "filtered_rows df item color (Some b) (Some Less) = Inr (filter (\<lambda>r. price_le r x) base)"
  using assms by (simp add: filtered_rows_def by_budget_def)

lemma filtered_rows_More:
  assumes "price_col df" "py_float b = Inr x" "filtered_rows df item color None None = Inr base"
  shows "filtered_rows df item color (Some b) (Some More) = Inr (filter (\<lambda>r. price_ge r x) base)"
  using assms by (simp add: filtered_rows_def by_budget_def)

lemma price_le_ge_iff: "price_le r x \<and> price_ge r x \<longleftrightarrow> row_price r = Some x"
  by (auto simp: price_le_def price_ge_def split: option.splits)

lemma by_budget_subseq: "by_budget budget pt col rs = Inr rs' \<Longrightarrow> subseq rs' rs"
  by (auto simp: by_budget_def split: option.splits if_splits price_type.splits sum.splits)

lemma filtered_rows_subseq: "filtered_rows df item color budget pt = Inr rs \<Longrightarrow> subseq rs (rows df)"
proof -
  assume a: "filtered_rows df item color budget pt = Inr rs"
  have t: "subseq (by_text pat col cell xs) xs" for pat col cell xs
    by (simp add: by_text_def split: option.splits)
  from a have "subseq rs (by_text color (color_col df) row_color
                 (by_text item (item_col df) row_item (rows df)))"
    unfolding filtered_rows_def by (rule by_budget_subseq)
  with t show ?thesis
    by (meson subseq_order.trans)
qed

lemma search_products_Inr:
  assumes "filtered_rows df item color budget pt = Inr rs"
  shows "search_products sv df item color budget pt =
           (let results2 = (if price_col df then filter priced rs else rs)
            in if results2 = [] then Inr None
               else Inr (Some (take 3 (if price_col df then sv results2 else results2))))"
  using assms by (simp add: search_products_def)

lemma search_products_SomeD:
  assumes "search_products sv df item color budget pt = Inr (Some res)"
  shows "\<exists>rs. filtered_rows df item color budget pt = Inr rs
           \<and> res = take 3 (if price_col df then sv (filter priced rs) else rs)"
  using assms
  by (auto simp: search_products_def Let_def split: sum.splits if_splits)

lemma search_products_priced:
  assumes "price_col df" "filtered_rows df item color budget pt = Inr rs" "r \<in> set rs" "priced r"
  shows "\<exists>res. search_products sv df item color budget pt = Inr (Some res)"
proof -
  from assms have "filter priced rs \<noteq> []"
    by (auto simp: filter_empty_conv)
  with assms(1) show ?thesis
    by (simp add: search_products_Inr [OF assms(2)] Let_def)
qed

lemma sorts_by_priceD:
  "sorts_by_price sv \<Longrightarrow> list_all priced rs \<Longrightarrow>
   mset (sv rs) = mset rs \<and> sorted (map price_of (sv rs))"
  by (simp add: sorts_by_price_def)

lemma sorts_by_price_sort_key: "sorts_by_price (sort_key price_of)"
  by (simp add: sorts_by_price_def)

lemma list_all_priced_filter: "list_all priced (filter priced rs)"
  by (simp add: list_all_iff)

lemma search_products_all:
  "price_col df \<Longrightarrow>
   search_products sv df None None None None =
     (if filter priced (rows df) = [] then Inr None
      else Inr (Some (take 3 (sv (filter priced (rows df))))))"
  by (simp add: search_products_def filtered_rows_def by_budget_def by_text_def)

lemma mset_minus_take: "mset xs - mset (take n xs) = mset (drop n xs)"
proof -
  have "mset xs = mset (take n xs) + mset (drop n xs)"
    by (metis append_take_drop_id mset_append)
  then show ?thesis by simp
qed

lemma sorted_take_le_drop:
  assumes "sorted (map f xs)" "y \<in> set (take n xs)" "x \<in> set (drop n xs)"
  shows "f y \<le> f x"
proof -
  have "sorted (map f (take n xs) @ map f (drop n xs))"
    using assms(1) by (metis append_take_drop_id map_append)
  with assms(2,3) show ?thesis
    by (auto simp: sorted_append)
qed

lemma sorted_map_take: "sorted (map f xs) \<Longrightarrow> sorted (map f (take n xs))"
  by (metis sorted_wrt_take take_map)

lemma sorts_by_price_distinct:
  assumes "sorts_by_price sv" "list_all priced rs" "distinct (map price_of rs)"
  shows "sv rs = sort_key price_of rs"
proof -
  let ?ys = "sv rs" and ?zs = "sort_key price_of rs"
  from sorts_by_priceD [OF assms(1,2)]
  have m: "mset ?ys = mset rs" and s: "sorted (map price_of ?ys)" by auto
  have mm: "mset (map price_of ?ys) = mset (map price_of rs)"
    using m by (metis mset_map)
  have d: "distinct (map price_of ?ys)"
    using mm assms(3) by (metis mset_eq_imp_distinct_iff)
  have set_eq: "set ?ys = set rs"
    using m by (metis set_mset_mset)
  have "map price_of ?ys = map price_of ?zs"
  proof (rule sorted_distinct_set_unique)
    show "sorted (map price_of ?ys)" by (rule s)
    show "distinct (map price_of ?ys)" by (rule d)
    show "sorted (map price_of ?zs)" by simp
    show "distinct (map price_of ?zs)"
      using assms(3) by (metis distinct_map distinct_sort set_sort inj_on_cong)
    show "set (map price_of ?ys) = set (map price_of ?zs)"
      using set_eq by simp
  qed
  moreover have "inj_on price_of (set ?ys \<union> set ?zs)"
    using assms(3) set_eq by (simp add: distinct_map)
  ultimately show ?thesis
    by (simp add: inj_on_map_eq_map)
qed

lemma ties_stable:
  assumes "search_products (sort_key price_of) df item color budget pt = Inr (Some res)"
  shows "subseq (filter (\<lambda>r. price_of r = p) res) (rows df)"
proof -
  from search_products_SomeD [OF assms] obtain rs where
    f: "filtered_rows df item color budget pt = Inr rs"
    and res: "res = take 3 (if price_col df then sort_key price_of (filter priced rs) else rs)"
    by blast
  let ?R = "if price_col df then filter priced rs else rs"
  have sub: "subseq ?R (rows df)"
  proof -
    have "subseq ?R rs" by simp
    with filtered_rows_subseq [OF f] show ?thesis
      by (meson subseq_order.trans)
  qed
  have "prefix (filter (\<lambda>r. price_of r = p) res) (filter (\<lambda>r. price_of r = p) ?R)"
  proof (cases "price_col df")
    case True
    then have "res = take 3 (sort_key price_of ?R)" using res by simp
    then have "prefix res (sort_key price_of ?R)"
      by (simp add: take_is_prefix)
    then have "prefix (filter (\<lambda>r. price_of r = p) res)
                 (filter (\<lambda>r. price_of r = p) (sort_key price_of ?R))"
      by (rule filter_mono_prefix)
    moreover have "filter (\<lambda>r. price_of r = p) (sort_key price_of ?R)
                   = filter (\<lambda>r. price_of r = p) ?R"
      by (rule sort_key_stable)
    ultimately show ?thesis by simp
  next
    case False
    then have "prefix res ?R" using res by (simp add: take_is_prefix)
    then show ?thesis by (rule filter_mono_prefix)
  qed
  then have "subseq (filter (\<lambda>r. price_of r = p) res) (filter (\<lambda>r. price_of r = p) ?R)"
    by (rule prefix_imp_subseq)
  moreover have "subseq (filter (\<lambda>r. price_of r = p) ?R) ?R" by simp
  ultimately show ?thesis
    using sub by (meson subseq_order.trans)
qed

lemma search_sorted:
  assumes "search_products sv df item color budget pt = Inr (Some res)"
    and "price_col df" and "sorts_by_price sv"
  shows "sorted (map price_of res)"
proof -
  from search_products_SomeD [OF assms(1)] assms(2) obtain rs where
    "res = take 3 (sv (filter priced rs))"
    by auto
  moreover have "sorted (map price_of (sv (filter priced rs)))"
    using sorts_by_priceD [OF assms(3) list_all_priced_filter] by blast
  ultimately show ?thesis
    by (simp add: sorted_map_take)
qed

lemma search_products_sort_key:
  assumes "sorts_by_price sv"
    and "filtered_rows df item color budget pt = Inr rs"
    and "distinct (map price_of (filter priced rs))"
  shows "search_products sv df item color budget pt
         = search_products (sort_key price_of) df item color budget pt"
  using sorts_by_price_distinct [OF assms(1) list_all_priced_filter assms(3)]
  by (simp add: search_products_Inr [OF assms(2)] Let_def)

lemma py_float_exact: "0 \<le> n \<Longrightarrow> n < 2 ^ 53 \<Longrightarrow> py_float n = Inr (of_int n)"
  by (simp add: py_float_def round_53_def sgn_if)

lemma under_80_text: "strip (lower ''blue jeans under 80'') = ''blue jeans under 80''"
  by code_simp

lemma under_80_no_stop: "\<not> is_stop ''blue jeans under 80''"
  by code_simp

lemma under_80_gate: "budget_gate ''blue jeans under 80''"
  by code_simp

lemma under_80_budget: "extract_budget ''blue jeans under 80'' = (Some 80, Some Less)"
  by code_simp

lemma under_80_rows:
  "filtered_rows fallback_df None None (Some 80) (Some Less) =
     Inr [mk_row ''Blue Jeans'' ''Bottoms'' ''Blue'' (4999 / 100),
          mk_row ''Black Sneakers'' ''Shoes'' ''Black'' (6999 / 100),
          mk_row ''White T-Shirt'' ''Tops'' ''White'' (1999 / 100),
          mk_row ''Green Hoodie'' ''Outerwear'' ''Green'' (5999 / 100),
          mk_row ''Yellow Scarf'' ''Accessories'' ''Yellow'' (1499 / 100)]"
  by (simp add: filtered_rows_def by_budget_def by_text_def fallback_df_def py_float_exact
        price_le_def mk_row_def)

lemma under_80_distinct:
  "distinct (map price_of (filter priced
     [mk_row ''Blue Jeans'' ''Bottoms'' ''Blue'' (4999 / 100),
      mk_row ''Black Sneakers'' ''Shoes'' ''Black'' (6999 / 100),
      mk_row ''White T-Shirt'' ''Tops'' ''White'' (1999 / 100),
      mk_row ''Green Hoodie'' ''Outerwear'' ''Green'' (5999 / 100),
      mk_row ''Yellow Scarf'' ''Accessories'' ''Yellow'' (1499 / 100)]))"
  by (simp add: priced_def price_of_def mk_row_def)

lemma under_80_search:
  "search_products (sort_key price_of) fallback_df None None (Some 80) (Some Less)
     = Inr (Some [mk_row ''Yellow Scarf'' ''Accessories'' ''Yellow'' (1499 / 100),
                  mk_row ''White T-Shirt'' ''Tops'' ''White'' (1999 / 100),
                  mk_row ''Blue Jeans'' ''Bottoms'' ''Blue'' (4999 / 100)])"
  unfolding search_products_Inr [OF under_80_rows]
  by (simp add: fallback_df_def priced_def price_of_def mk_row_def)

lemma under_80_item_rows:
  "filtered_rows fallback_df (Some ''blue jeans'') None (Some 80) (Some Less) =
     Inr [mk_row ''Blue Jeans'' ''Bottoms'' ''Blue'' (4999 / 100)]"
proof -
  have "by_text (Some ''blue jeans'') True row_item (rows fallback_df)
        = [mk_row ''Blue Jeans'' ''Bottoms'' ''Blue'' (4999 / 100)]"
    by code_simp
  then show ?thesis
    by (simp add: filtered_rows_def by_budget_def by_text_def fallback_df_def py_float_exact
          price_le_def mk_row_def)
qed

lemma under_80_item_search:
  "search_products sv fallback_df (Some ''blue jeans'') None (Some 80) (Some Less)
     = Inr (Some (take 3 (sv [mk_row ''Blue Jeans'' ''Bottoms'' ''Blue'' (4999 / 100)])))"
  unfolding search_products_Inr [OF under_80_item_rows]
  by (simp add: fallback_df_def priced_def mk_row_def)

lemma under_80_text_reply:
  "respond_like_bot fallback_df
     [mk_row ''Yellow Scarf'' ''Accessories'' ''Yellow'' (1499 / 100),
      mk_row ''White T-Shirt'' ''Tops'' ''White'' (1999 / 100),
      mk_row ''Blue Jeans'' ''Bottoms'' ''Blue'' (4999 / 100)]
     None None (Some 80) (Some Less)
   = ''Here are some  items under $80 '' @ shopping_bags @ nl @ nl
     @ sparkles @ '' **Yellow Scarf** '' @ em_dash @ '' $14.99'' @ nl
     @ ''   Category: Accessories | Color: Yellow'' @ nl @ nl
     @ sparkles @ '' **White T-Shirt** '' @ em_dash @ '' $19.99'' @ nl
     @ ''   Category: Tops | Color: White'' @ nl @ nl
     @ sparkles @ '' **Blue Jeans** '' @ em_dash @ '' $49.99'' @ nl
     @ ''   Category: Bottoms | Color: Blue'' @ nl @ nl
     @ ''Would you like me to show *similar* or *cheaper* options next?''"
  by (simp add: respond_like_bot_def row_text_def fallback_df_def mk_row_def cell_str_def
        format_2f_def round_half_even_def Let_def or_str_def nonzero_def budget_str_def
        str_int_def)

lemma compare_products_info:
  "length (re_split [] (lower u)) < 2 \<Longrightarrow> compare_products gcm df u = Inr Info"
  by (cases "re_split [] (lower u)" rule: list.exhaust; simp add: compare_products_def split: list.splits)

lemma compare_products_warning:
  assumes "re_split [] (lower u) = m0 # m1 # ms"
    and "find_product gcm df (strip m0) = None \<or> find_product gcm df (strip m1) = None"
  shows "compare_products gcm df u = Inr Warning"
  using assms by (auto simp: compare_products_def split: option.splits)

lemma compare_products_table:
  assumes "re_split [] (lower u) = m0 # m1 # ms"
    and "find_product gcm df (strip m0) = Some p1" "find_product gcm df (strip m1) = Some p2"
    and "color_col df"
  shows "\<exists>c. compare_products gcm df u = Inr (Table c)
          \<and> cmp_table c = py_dict [(''Attribute'', [''Price'', ''Color'', ''Category'']),
                                    column_of df p1, column_of df p2]"
  using assms by (simp add: compare_products_def)

lemma py_dict_three:
  "py_dict [(a, x), (k1, v1), (k2, v2)] =
     (if a = k1 then (if a = k2 then [(a, v2)] else [(a, v1), (k2, v2)])
      else if a = k2 then [(a, v2), (k1, v1)]
      else if k1 = k2 then [(a, x), (k1, v2)]
      else [(a, x), (k1, v1), (k2, v2)])"
  by (simp add: py_dict_def)












lemma lower_length: "length (lower s) = length s"
  by (simp add: lower_def)







section \<open>The dialogue claims\<close>

lemma stop_word_on_one_line_resets:
  assumes "w \<in> set stop_words"
    and "strip (lower u) = pre @ w @ post"
    and "pre = [] \<or> \<not> is_word (last pre)"
    and "post = [] \<or> \<not> is_word (hd post)"
    and "CHR 0x0A \<notin> set (strip (lower u))"
  shows "generate_reply gcm sv df ctx u =
           (\<lparr>ctx_item = None, ctx_color = None, ctx_budget = None, ctx_price_type = None,
             ctx_step = ''greet''\<rparr>, Inr farewell)"
proof -
  have "is_stop (strip (lower u))"
    using assms by (rule is_stop_intro)
  then show ?thesis
    by (simp add: generate_reply_stop)
qed

lemma hi_stop_text: "strip (lower (''hi'' @ nl @ ''stop'')) = ''hi'' @ nl @ ''stop''"
  by code_simp

lemma hi_stop_no_stop: "\<not> is_stop (''hi'' @ nl @ ''stop'')"
  by code_simp

lemma hi_stop_no_budget: "\<not> budget_gate (''hi'' @ nl @ ''stop'')"
  by code_simp

lemma hi_stop_no_color: "extract_color (''hi'' @ nl @ ''stop'') = None"
  by code_simp

text \<open>
  C5. The code departs from the claim on an utterance of several lines. The stop test is
  \<^verbatim>\<open>re.fullmatch(".*\bW\b.*", text)\<close>, and the dot does not match a line feed: the text
  \<open>hi\<close>, line feed, \<open>stop\<close> holds the stop phrase \<open>stop\<close> as a whole word and is not
  taken for a stop. From the initial slots the reply is the greeting and the step moves
  to \<open>ask_item\<close>; in step \<open>ask_color\<close> the stored item stays and the step moves to
  \<open>ask_budget\<close>. On one line the same words reset the dialogue.
\<close>

theorem stop_word_after_line_feed_is_missed:
  "\<not> is_word (last (''hi'' @ nl)) \<and> ''stop'' \<in> set stop_words
   \<and> strip (lower (''hi'' @ nl @ ''stop'')) = (''hi'' @ nl) @ ''stop'' @ []
   \<and> generate_reply gcm sv df initial_context (''hi'' @ nl @ ''stop'')
       = (initial_context\<lparr>ctx_step := ''ask_item''\<rparr>, Inr greet_reply)
   \<and> generate_reply gcm sv df
         \<lparr>ctx_item = Some ''blue jeans'', ctx_color = None, ctx_budget = None,
          ctx_price_type = None, ctx_step = ''ask_color''\<rparr>
         (''hi'' @ nl @ ''stop'')
       = (\<lparr>ctx_item = Some ''blue jeans'', ctx_color = None, ctx_budget = None,
           ctx_price_type = None, ctx_step = ''ask_budget''\<rparr>, Inr ask_budget_reply)
   \<and> generate_reply gcm sv df
         \<lparr>ctx_item = Some ''blue jeans'', ctx_color = None, ctx_budget = None,
          ctx_price_type = None, ctx_step = ''ask_color''\<rparr>
         ''hi stop''
       = (\<lparr>ctx_item = None, ctx_color = None, ctx_budget = None,
           ctx_price_type = None, ctx_step = ''greet''\<rparr>, Inr farewell)"
proof -
  let ?u = "''hi'' @ nl @ ''stop''"
  let ?ctx = "\<lparr>ctx_item = Some ''blue jeans'', ctx_color = None, ctx_budget = None,
          ctx_price_type = None, ctx_step = ''ask_color''\<rparr>"
  have a: "\<not> is_word (last (''hi'' @ nl))" by code_simp
  have b: "''stop'' \<in> set stop_words" by (simp add: stop_words_def)
  have n: "\<not> is_stop (strip (lower ?u))"
    by (simp only: hi_stop_text hi_stop_no_stop not_False_eq_True)
  have g: "\<not> budget_gate (strip (lower ?u))"
    by (simp only: hi_stop_text hi_stop_no_budget not_False_eq_True)
  have 1: "generate_reply gcm sv df initial_context ?u
       = (initial_context\<lparr>ctx_step := ''ask_item''\<rparr>, Inr greet_reply)"
    by (rule generate_reply_greet [OF n g]) (simp add: initial_context_def)
  have "generate_reply gcm sv df ?ctx ?u
       = ((if truthy (extract_color (strip (lower ?u)))
           then ?ctx\<lparr>ctx_color := extract_color (strip (lower ?u))\<rparr> else ?ctx)
            \<lparr>ctx_step := ''ask_budget''\<rparr>, Inr ask_budget_reply)"
    by (rule generate_reply_ask_color [OF n g]) simp
  then have 2: "generate_reply gcm sv df ?ctx ?u
       = (\<lparr>ctx_item = Some ''blue jeans'', ctx_color = None, ctx_budget = None,
           ctx_price_type = None, ctx_step = ''ask_budget''\<rparr>, Inr ask_budget_reply)"
    by (simp only: hi_stop_text hi_stop_no_color) (simp add: truthy_def)
  have s: "is_stop (strip (lower ''hi stop''))" by code_simp
  have 3: "generate_reply gcm sv df ?ctx ''hi stop''
       = (\<lparr>ctx_item = None, ctx_color = None, ctx_budget = None,
           ctx_price_type = None, ctx_step = ''greet''\<rparr>, Inr farewell)"
    by (simp add: generate_reply_stop [OF s])
  from a b 1 2 3 show ?thesis
    by (simp only: hi_stop_text append_Nil2 append_assoc simp_thms)
qed

lemma budget_branch_frame:
  assumes "\<not> is_stop (strip (lower u))"
    and "budget_gate (strip (lower u))"
  shows "\<exists>b p. extract_budget (strip (lower u)) = (Some b, Some p)
           \<and> generate_reply gcm sv df ctx u =
               (ctx\<lparr>ctx_budget := Some b, ctx_price_type := Some p\<rparr>,
                answer (search_products sv df (ctx_item ctx) (ctx_color ctx) (Some b) (Some p))
                  (\<lambda>results. respond_like_bot df results (ctx_item ctx) (ctx_color ctx)
                     (Some b) (Some p))
                  (no_range_reply (ctx_item ctx)))"
proof -
  from budget_gate_extract [OF assms(2)]
  obtain b p where e: "extract_budget (strip (lower u)) = (Some b, Some p)"
    by blast
  show ?thesis
    using e by (simp add: generate_reply_budget [OF assms])
qed

lemma greater_than_30:
  "strip (lower ''greater than 30'') = ''greater than 30''"
  "\<not> is_stop ''greater than 30''" "\<not> budget_gate ''greater than 30''"
  "extract_budget ''greater than 30'' = (Some 30, Some More)"
  by code_simp+

lemma under_dollar_50:
  "strip (lower ''under $ 50'') = ''under $ 50''"
  "\<not> is_stop ''under $ 50''" "\<not> budget_gate ''under $ 50''"
  "extract_budget ''under $ 50'' = (Some 50, Some Less)"
  by code_simp+

lemma huge_budget_text:
  "strip (lower huge_budget_text) = huge_budget_text"
  "\<not> is_stop huge_budget_text" "budget_gate huge_budget_text"
  "extract_budget huge_budget_text = (Some (10 ^ 309), Some Less)"
  by code_simp+

lemma huge_budget_overflow: "py_float (10 ^ 309) = Inl OverflowError"
  by code_simp

text \<open>
  C6. The code departs from the claim on three inputs. The test that opens the budget
  branch is a third pattern, narrower than the two of \<^verbatim>\<open>extract_filters\<close>: it has
  \<^verbatim>\<open>greater\<close> without the optional \<^verbatim>\<open>than\<close> and allows no white space after the dollar
  sign. \<open>greater than 30\<close> and \<open>under $ 50\<close> hold a budget pattern, with the budgets 30
  and 50, yet miss the budget branch: from the initial slots the reply is the greeting,
  the step moves to \<open>ask_item\<close>, no budget is stored and no search runs. A budget with
  310 digits does open the branch; the budget slots are written, then
  \<^verbatim>\<open>float(budget)\<close> raises \<^verbatim>\<open>OverflowError\<close> inside \<^verbatim>\<open>search_products\<close> and no reply is returned.
\<close>

theorem budget_phrases_outside_the_branch:
  "extract_budget ''greater than 30'' = (Some 30, Some More)
   \<and> generate_reply gcm sv df initial_context ''greater than 30''
       = (initial_context\<lparr>ctx_step := ''ask_item''\<rparr>, Inr greet_reply)
   \<and> extract_budget ''under $ 50'' = (Some 50, Some Less)
   \<and> generate_reply gcm sv df initial_context ''under $ 50''
       = (initial_context\<lparr>ctx_step := ''ask_item''\<rparr>, Inr greet_reply)
   \<and> extract_budget huge_budget_text = (Some (10 ^ 309), Some Less)
   \<and> generate_reply gcm sv fallback_df initial_context huge_budget_text
       = (initial_context\<lparr>ctx_budget := Some (10 ^ 309), ctx_price_type := Some Less\<rparr>,
          Inl OverflowError)"
proof -
  have i: "ctx_step initial_context = ''greet''" by (simp add: initial_context_def)
  have 1: "generate_reply gcm sv df initial_context ''greater than 30''
       = (initial_context\<lparr>ctx_step := ''ask_item''\<rparr>, Inr greet_reply)"
    by (rule generate_reply_greet) (simp_all only: greater_than_30 i not_False_eq_True)
  have 2: "generate_reply gcm sv df initial_context ''under $ 50''
       = (initial_context\<lparr>ctx_step := ''ask_item''\<rparr>, Inr greet_reply)"
    by (rule generate_reply_greet) (simp_all only: under_dollar_50 i not_False_eq_True)
  have n: "\<not> is_stop (strip (lower huge_budget_text))"
    by (simp only: huge_budget_text not_False_eq_True)
  have g: "budget_gate (strip (lower huge_budget_text))"
    by (simp only: huge_budget_text)
  have pc: "price_col fallback_df" by (simp add: fallback_df_def)
  have s: "search_products sv fallback_df None None (Some (10 ^ 309)) (Some Less)
           = Inl OverflowError"
    by (simp only: search_products_def filtered_rows_def by_budget_def option.case
          price_type.case pc if_True huge_budget_overflow sum.case)
  have ci: "ctx_item initial_context = None" "ctx_color initial_context = None"
    by (simp_all add: initial_context_def)
  have 3: "generate_reply gcm sv fallback_df initial_context huge_budget_text
       = (initial_context\<lparr>ctx_budget := Some (10 ^ 309), ctx_price_type := Some Less\<rparr>,
          Inl OverflowError)"
    unfolding generate_reply_budget [OF n g] huge_budget_text
    by (simp only: fst_conv snd_conv ci s answer_def sum.case)
  from 1 2 3 greater_than_30(4) under_dollar_50(4) huge_budget_text(4) show ?thesis
    by simp
qed



lemma red_dress_reply:
  "generate_reply gcm sv fallback_df (ctx\<lparr>ctx_step := ''ask_item''\<rparr>) ''red dress'' =
     (ctx\<lparr>ctx_item := Some ''red dress'', ctx_color := Some ''red'', ctx_step := ''ask_color''\<rparr>,
      Inr (ask_color_reply (Some ''red dress'')))"
proof -
  have "\<not> is_stop (strip (lower ''red dress''))"
    by (simp add: red_dress_text red_dress_no_stop)
  moreover have "\<not> budget_gate (strip (lower ''red dress''))"
    by (simp add: red_dress_text red_dress_no_budget)
  moreover have "ctx_step (ctx\<lparr>ctx_step := ''ask_item''\<rparr>) = ''ask_item''"
    by simp
  ultimately show ?thesis
    by (simp add: generate_reply_ask_item red_dress_text red_dress_color red_dress_item)
qed

text \<open>
  C8, as the claim states it, fails: the item found in \<open>red dress\<close> is the catalog name
  \<open>red dress\<close>, not \<open>dress\<close>.
\<close>

theorem red_dress_item_is_not_dress:
  "ctx_item (fst (generate_reply (\<lambda>w ps. []) (sort_key price_of) fallback_df
      (initial_context\<lparr>ctx_step := ''ask_item''\<rparr>) ''red dress'')) \<noteq> Some ''dress''"
  by (simp add: red_dress_reply)

text \<open>
  C8, amended. With the built-in catalog, \<open>red dress\<close> in step \<open>ask_item\<close> stores the item
  \<open>red dress\<close> and the color \<open>red\<close>, moves to \<open>ask_color\<close> and asks for a color
  preference.
\<close>

theorem red_dress_in_ask_item:
  "extract_filters gcm fallback_df ''red dress'' = (Some ''red dress'', Some ''red'', None, None)
   \<and> generate_reply gcm sv fallback_df (ctx\<lparr>ctx_step := ''ask_item''\<rparr>) ''red dress'' =
       (ctx\<lparr>ctx_item := Some ''red dress'', ctx_color := Some ''red'', ctx_step := ''ask_color''\<rparr>,
        Inr (''Nice choice! '' @ dart @ '' Do you have a color preference for your red dress?''))"
proof -
  have l: "lower ''red dress'' = ''red dress''" by code_simp
  have b: "extract_budget ''red dress'' = (None, None)" by code_simp
  have "extract_filters gcm fallback_df ''red dress'' = (Some ''red dress'', Some ''red'', None, None)"
    by (simp add: extract_filters_parts l b red_dress_color red_dress_item)
  then show ?thesis
    by (simp add: red_dress_reply ask_color_reply_def or_str_def)
qed

theorem red_dress_in_ask_item_witness:
  "generate_reply (\<lambda>w ps. []) (sort_key price_of) fallback_df
     \<lparr>ctx_item = None, ctx_color = None, ctx_budget = None, ctx_price_type = None,
      ctx_step = ''ask_item''\<rparr> ''red dress'' =
     (\<lparr>ctx_item = Some ''red dress'', ctx_color = Some ''red'', ctx_budget = None,
       ctx_price_type = None, ctx_step = ''ask_color''\<rparr>,
      Inr (''Nice choice! '' @ dart @ '' Do you have a color preference for your red dress?''))"
  using red_dress_in_ask_item [of "\<lambda>w ps. []" "sort_key price_of" initial_context]
  by (simp add: initial_context_def)

section \<open>The search claims\<close>

text \<open>
  C4. A row that satisfies the item and color filters and is priced exactly at the budget
  passes the budget filter in both directions, and the two filtered sets share exactly
  the rows at the boundary. Every price of the data frame is a float; a budget equal to
  one is a float too and \<^verbatim>\<open>float(budget)\<close> returns it unchanged, which the last hypothesis
  says for the model, whose price cells are rational numbers.
\<close>

theorem boundary_price_passes_both:
  assumes "price_col df"
    and "filtered_rows df item color None None = Inr base"
    and "r \<in> set base"
    and "row_price r = Some (of_int b)"
    and "py_float b = Inr (of_int b)"
  shows "\<exists>less more.
           filtered_rows df item color (Some b) (Some Less) = Inr less
         \<and> filtered_rows df item color (Some b) (Some More) = Inr more
         \<and> r \<in> set less \<and> r \<in> set more
         \<and> set less \<inter> set more = {x \<in> set base. row_price x = Some (of_int b)}
         \<and> (\<exists>res. search_products sv df item color (Some b) (Some Less) = Inr (Some res))
         \<and> (\<exists>res. search_products sv df item color (Some b) (Some More) = Inr (Some res))"
proof -
  let ?less = "filter (\<lambda>r. price_le r (of_int b)) base"
  let ?more = "filter (\<lambda>r. price_ge r (of_int b)) base"
  have L: "filtered_rows df item color (Some b) (Some Less) = Inr ?less"
    using assms(1,5,2) by (rule filtered_rows_Less)
  have M: "filtered_rows df item color (Some b) (Some More) = Inr ?more"
    using assms(1,5,2) by (rule filtered_rows_More)
  have l: "r \<in> set ?less"
    using assms(3,4) by (simp add: price_le_def)
  have m: "r \<in> set ?more"
    using assms(3,4) by (simp add: price_ge_def)
  have i: "set ?less \<inter> set ?more = {x \<in> set base. row_price x = Some (of_int b)}"
    using price_le_ge_iff [of _ "of_int b"] by auto
  have p: "priced r"
    using assms(4) by (simp add: priced_def)
  from search_products_priced [OF assms(1) L l p]
  have sl: "\<exists>res. search_products sv df item color (Some b) (Some Less) = Inr (Some res)" .
  from search_products_priced [OF assms(1) M m p]
  have sm: "\<exists>res. search_products sv df item color (Some b) (Some More) = Inr (Some res)" .
  from L M l m i sl sm show ?thesis by blast
qed

theorem boundary_price_passes_both_witness:
  "price_col boundary_df
   \<and> row_price (mk_row ''Black Jeans'' ''Bottoms'' ''Black'' 80) = Some (of_int 80)
   \<and> py_float 80 = Inr (of_int 80)
   \<and> filtered_rows boundary_df (Some ''jeans'') None (Some 80) (Some Less)
       = Inr [mk_row ''Blue Jeans'' ''Bottoms'' ''Blue'' 50,
              mk_row ''Black Jeans'' ''Bottoms'' ''Black'' 80]
   \<and> filtered_rows boundary_df (Some ''jeans'') None (Some 80) (Some More)
       = Inr [mk_row ''Black Jeans'' ''Bottoms'' ''Black'' 80,
              mk_row ''Grey Jeans'' ''Bottoms'' ''Grey'' 95]
   \<and> mk_row ''Black Jeans'' ''Bottoms'' ''Black'' 80
       \<in> set [mk_row ''Blue Jeans'' ''Bottoms'' ''Blue'' 50,
               mk_row ''Black Jeans'' ''Bottoms'' ''Black'' 80]
         \<inter> set [mk_row ''Black Jeans'' ''Bottoms'' ''Black'' 80,
                  mk_row ''Grey Jeans'' ''Bottoms'' ''Grey'' 95]"
proof -
  let ?r = "mk_row ''Black Jeans'' ''Bottoms'' ''Black'' 80"
  let ?base = "[mk_row ''Blue Jeans'' ''Bottoms'' ''Blue'' 50, ?r,
                mk_row ''Grey Jeans'' ''Bottoms'' ''Grey'' 95]"
  have h1: "price_col boundary_df" by (simp add: boundary_df_def)
  have h2: "filtered_rows boundary_df (Some ''jeans'') None None None = Inr ?base"
    by code_simp
  have h3: "?r \<in> set ?base" by simp
  have h4: "row_price ?r = Some (of_int 80)" by (simp add: mk_row_def)
  have h5: "py_float 80 = Inr (of_int 80)" by (simp add: py_float_exact)
  have l: "filtered_rows boundary_df (Some ''jeans'') None (Some 80) (Some Less)
       = Inr [mk_row ''Blue Jeans'' ''Bottoms'' ''Blue'' 50, ?r]"
    unfolding filtered_rows_Less [OF h1 h5 h2]
    by (simp add: price_le_def mk_row_def)
  have m: "filtered_rows boundary_df (Some ''jeans'') None (Some 80) (Some More)
       = Inr [?r, mk_row ''Grey Jeans'' ''Bottoms'' ''Grey'' 95]"
    unfolding filtered_rows_More [OF h1 h5 h2]
    by (simp add: price_ge_def mk_row_def)
  from boundary_price_passes_both [OF h1 h2 h3 h4 h5, of "sort_key price_of"]
  obtain less more where
    "filtered_rows boundary_df (Some ''jeans'') None (Some 80) (Some Less) = Inr less"
    "filtered_rows boundary_df (Some ''jeans'') None (Some 80) (Some More) = Inr more"
    "?r \<in> set less" "?r \<in> set more"
    by blast
  with l m have "?r \<in> set [mk_row ''Blue Jeans'' ''Bottoms'' ''Blue'' 50, ?r]
                   \<inter> set [?r, mk_row ''Grey Jeans'' ''Bottoms'' ''Grey'' 95]"
    by simp
  with h1 h4 h5 l m show ?thesis by blast
qed

text \<open>
  C2. Without any filter, on a catalog with a price column, the search returns the rows
  with a price, sorted and cut to three: an ascending list of \<open>min 3 n\<close> priced rows of
  the catalog such that no remaining priced row is cheaper than a returned one; it
  returns \<open>None\<close> when no row has a price.
\<close>

theorem search_without_filters:
  assumes "price_col df" and "sorts_by_price sv"
  shows "(filter priced (rows df) = [] \<longrightarrow> search_products sv df None None None None = Inr None)
       \<and> (filter priced (rows df) \<noteq> [] \<longrightarrow>
            (\<exists>res. search_products sv df None None None None = Inr (Some res)
                 \<and> length res = min 3 (length (filter priced (rows df)))
                 \<and> sorted (map price_of res)
                 \<and> mset res \<subseteq># mset (filter priced (rows df))
                 \<and> (\<forall>x \<in># mset (filter priced (rows df)) - mset res.
                      \<forall>y \<in> set res. price_of y \<le> price_of x)))"
proof -
  let ?P = "filter priced (rows df)"
  let ?S = "sv ?P"
  from sorts_by_priceD [OF assms(2) list_all_priced_filter]
  have m: "mset ?S = mset ?P" and s: "sorted (map price_of ?S)"
    by auto
  have len: "length ?S = length ?P"
    using m by (metis size_mset)
  have 1: "length (take 3 ?S) = min 3 (length ?P)"
    using len by simp
  have 2: "sorted (map price_of (take 3 ?S))"
    using s by (rule sorted_map_take)
  have "mset (take 3 ?S) \<subseteq># mset ?S"
    by (metis append_take_drop_id mset_append mset_subset_eq_add_left)
  then have 3: "mset (take 3 ?S) \<subseteq># mset ?P"
    by (simp add: m)
  have "mset ?P - mset (take 3 ?S) = mset (drop 3 ?S)"
    using mset_minus_take [of ?S 3] by (simp add: m)
  then have 4: "\<forall>x \<in># mset ?P - mset (take 3 ?S). \<forall>y \<in> set (take 3 ?S). price_of y \<le> price_of x"
    using sorted_take_le_drop [OF s] by auto
  show ?thesis
    using 1 2 3 4 by (simp add: search_products_all [OF assms(1)])
qed

theorem search_without_filters_witness:
  "price_col fallback_df \<and> sorts_by_price (sort_key price_of)
   \<and> search_products (sort_key price_of) fallback_df None None None None
       = Inr (Some [mk_row ''Yellow Scarf'' ''Accessories'' ''Yellow'' (1499 / 100),
                    mk_row ''White T-Shirt'' ''Tops'' ''White'' (1999 / 100),
                    mk_row ''Blue Jeans'' ''Bottoms'' ''Blue'' (4999 / 100)])
   \<and> length (filter priced (rows fallback_df)) = 6"
proof -
  have h1: "price_col fallback_df" by (simp add: fallback_df_def)
  have h2: "sorts_by_price (sort_key price_of)" by (rule sorts_by_price_sort_key)
  have n: "length (filter priced (rows fallback_df)) = 6" by code_simp
  then have ne: "filter priced (rows fallback_df) \<noteq> []" by auto
  from search_without_filters [OF h1 h2] ne
  obtain res where r: "search_products (sort_key price_of) fallback_df None None None None = Inr (Some res)"
    and "length res = min 3 (length (filter priced (rows fallback_df)))"
    by blast
  have "search_products (sort_key price_of) fallback_df None None None None
       = Inr (Some [mk_row ''Yellow Scarf'' ''Accessories'' ''Yellow'' (1499 / 100),
                    mk_row ''White T-Shirt'' ''Tops'' ''White'' (1999 / 100),
                    mk_row ''Blue Jeans'' ''Bottoms'' ''Blue'' (4999 / 100)])"
    by code_simp
  with h1 h2 n show ?thesis by blast
qed

text \<open>
  C7. From the initial slots, \<open>blue jeans under 80\<close> takes the budget branch, which searches
  with the stored item, and no item is stored yet: the search runs with no item, over
  the whole catalog, and the item named in the utterance is dropped. The reply starts
  \<open>Here are some  items under $80\<close> and lists the three cheapest rows, the jeans last.
  The search the claim expects, with the item \<open>blue jeans\<close>, would return the jeans alone.
\<close>

theorem blue_jeans_under_80_drops_item:
  assumes "sorts_by_price sv"
  shows "generate_reply gcm sv fallback_df initial_context ''blue jeans under 80''
         = (initial_context\<lparr>ctx_budget := Some 80, ctx_price_type := Some Less\<rparr>,
            Inr (respond_like_bot fallback_df
              [mk_row ''Yellow Scarf'' ''Accessories'' ''Yellow'' (1499 / 100),
               mk_row ''White T-Shirt'' ''Tops'' ''White'' (1999 / 100),
               mk_row ''Blue Jeans'' ''Bottoms'' ''Blue'' (4999 / 100)]
              None None (Some 80) (Some Less)))
       \<and> ctx_item (fst (generate_reply gcm sv fallback_df initial_context ''blue jeans under 80''))
           = None
       \<and> search_products sv fallback_df None None (Some 80) (Some Less)
           = Inr (Some [mk_row ''Yellow Scarf'' ''Accessories'' ''Yellow'' (1499 / 100),
                        mk_row ''White T-Shirt'' ''Tops'' ''White'' (1999 / 100),
                        mk_row ''Blue Jeans'' ''Bottoms'' ''Blue'' (4999 / 100)])
       \<and> search_products sv fallback_df (Some ''blue jeans'') None (Some 80) (Some Less)
           = Inr (Some [mk_row ''Blue Jeans'' ''Bottoms'' ''Blue'' (4999 / 100)])
       \<and> snd (generate_reply gcm sv fallback_df initial_context ''blue jeans under 80'')
           = Inr (''Here are some  items under $80 '' @ shopping_bags @ nl @ nl
             @ sparkles @ '' **Yellow Scarf** '' @ em_dash @ '' $14.99'' @ nl
             @ ''   Category: Accessories | Color: Yellow'' @ nl @ nl
             @ sparkles @ '' **White T-Shirt** '' @ em_dash @ '' $19.99'' @ nl
             @ ''   Category: Tops | Color: White'' @ nl @ nl
             @ sparkles @ '' **Blue Jeans** '' @ em_dash @ '' $49.99'' @ nl
             @ ''   Category: Bottoms | Color: Blue'' @ nl @ nl
             @ ''Would you like me to show *similar* or *cheaper* options next?'')"
proof -
  let ?three = "[mk_row ''Yellow Scarf'' ''Accessories'' ''Yellow'' (1499 / 100),
               mk_row ''White T-Shirt'' ''Tops'' ''White'' (1999 / 100),
               mk_row ''Blue Jeans'' ''Bottoms'' ''Blue'' (4999 / 100)]"
  have s: "search_products sv fallback_df None None (Some 80) (Some Less) = Inr (Some ?three)"
    using search_products_sort_key [OF assms under_80_rows under_80_distinct] under_80_search
    by simp
  have one: "sv [mk_row ''Blue Jeans'' ''Bottoms'' ''Blue'' (4999 / 100)]
             = [mk_row ''Blue Jeans'' ''Bottoms'' ''Blue'' (4999 / 100)]"
    using sorts_by_price_distinct [OF assms, of "[mk_row ''Blue Jeans'' ''Bottoms'' ''Blue'' (4999 / 100)]"]
    by (simp add: priced_def mk_row_def)
  have i: "search_products sv fallback_df (Some ''blue jeans'') None (Some 80) (Some Less)
           = Inr (Some [mk_row ''Blue Jeans'' ''Bottoms'' ''Blue'' (4999 / 100)])"
    by (simp add: under_80_item_search one)
  have n: "\<not> is_stop (strip (lower ''blue jeans under 80''))"
    by (simp add: under_80_text under_80_no_stop)
  have g: "budget_gate (strip (lower ''blue jeans under 80''))"
    by (simp add: under_80_text under_80_gate)
  have r: "generate_reply gcm sv fallback_df initial_context ''blue jeans under 80''
         = (initial_context\<lparr>ctx_budget := Some 80, ctx_price_type := Some Less\<rparr>,
            Inr (respond_like_bot fallback_df ?three None None (Some 80) (Some Less)))"
    by (simp add: generate_reply_budget [OF n g] under_80_text under_80_budget
          initial_context_def s answer_def found_def shown_def)
  show ?thesis
    using r s i under_80_text_reply by (simp add: initial_context_def)
qed

theorem blue_jeans_under_80_drops_item_witness:
  "sorts_by_price (sort_key price_of)
   \<and> generate_reply (\<lambda>w ps. []) (sort_key price_of) fallback_df initial_context
         ''blue jeans under 80''
       = (\<lparr>ctx_item = None, ctx_color = None, ctx_budget = Some 80,
           ctx_price_type = Some Less, ctx_step = ''greet''\<rparr>,
          Inr (respond_like_bot fallback_df
            [mk_row ''Yellow Scarf'' ''Accessories'' ''Yellow'' (1499 / 100),
             mk_row ''White T-Shirt'' ''Tops'' ''White'' (1999 / 100),
             mk_row ''Blue Jeans'' ''Bottoms'' ''Blue'' (4999 / 100)]
            None None (Some 80) (Some Less)))"
  using blue_jeans_under_80_drops_item [OF sorts_by_price_sort_key, of "\<lambda>w ps. []"]
    sorts_by_price_sort_key
  by (simp add: initial_context_def)

text \<open>
  C9. Two inputs on which the comparison screen departs from the claim. Both segments of
  \<open>blue jeans vs blue jeans\<close> resolve, to the same row: the two product columns of the
  table have the same key, and the table keeps a single product column. On a catalog
  without a color column both segments of \<open>blue jeans vs red dress\<close> resolve and the
  handler raises \<^verbatim>\<open>KeyError\<close>.
\<close>

theorem compare_same_label_and_no_color_column:
  "compare_products gcm fallback_df ''blue jeans vs blue jeans''
     = Inr (Table \<lparr>cmp_p1 = ''Blue Jeans'', cmp_c1 = ''Blue'',
                  cmp_p2 = ''Blue Jeans'', cmp_c2 = ''Blue'',
                  cmp_table = [(''Attribute'', [''Price'', ''Color'', ''Category'']),
                               (''Blue Jeans (Blue)'', [''$49.99'', ''Blue'', ''Bottoms''])]\<rparr>)
   \<and> compare_products gcm (fallback_df\<lparr>color_col := False\<rparr>) ''blue jeans vs red dress''
     = Inl KeyError"
proof -
  let ?nc = "fallback_df\<lparr>color_col := False\<rparr>"
  have l1: "lower ''blue jeans vs blue jeans'' = ''blue jeans vs blue jeans''"
    by (simp add: lower_def lower_char_def)
  have l2: "lower ''blue jeans vs red dress'' = ''blue jeans vs red dress''"
    by (simp add: lower_def lower_char_def)
  have s1: "re_split [] ''blue jeans vs blue jeans'' = [''blue jeans'', ''blue jeans'']"
    by code_simp
  have s2: "re_split [] ''blue jeans vs red dress'' = [''blue jeans'', ''red dress'']"
    by code_simp
  have t1: "strip ''blue jeans'' = ''blue jeans''" by code_simp
  have t2: "strip ''red dress'' = ''red dress''" by code_simp
  have f1: "find_product gcm fallback_df ''blue jeans''
            = Some (mk_row ''Blue Jeans'' ''Bottoms'' ''Blue'' (4999 / 100))"
    by code_simp
  have f2: "find_product gcm ?nc ''blue jeans''
            = Some (mk_row ''Blue Jeans'' ''Bottoms'' ''Blue'' (4999 / 100))"
    by code_simp
  have f3: "find_product gcm ?nc ''red dress''
            = Some (mk_row ''Red Dress'' ''Dresses'' ''Red'' (8999 / 100))"
    by code_simp
  have c: "column_of fallback_df (mk_row ''Blue Jeans'' ''Bottoms'' ''Blue'' (4999 / 100))
           = (''Blue Jeans (Blue)'', [''$49.99'', ''Blue'', ''Bottoms''])"
    by (simp add: column_of_def price_cell_def fallback_df_def mk_row_def cell_str_def
          format_2f_def round_half_even_def Let_def)
  have a: "compare_products gcm fallback_df ''blue jeans vs blue jeans''
     = Inr (Table \<lparr>cmp_p1 = ''Blue Jeans'', cmp_c1 = ''Blue'',
                  cmp_p2 = ''Blue Jeans'', cmp_c2 = ''Blue'',
                  cmp_table = [(''Attribute'', [''Price'', ''Color'', ''Category'']),
                               (''Blue Jeans (Blue)'', [''$49.99'', ''Blue'', ''Bottoms''])]\<rparr>)"
    unfolding compare_products_def l1 s1
    by (simp add: t1 f1 c py_dict_three) (simp add: fallback_df_def mk_row_def cell_str_def)
  have b: "compare_products gcm ?nc ''blue jeans vs red dress'' = Inl KeyError"
    unfolding compare_products_def l2 s2
    by (simp add: t1 t2 f2 f3)
  from a b show ?thesis by simp
qed

section \<open>The extraction claim\<close>






end
